theory Spec2Isabelle
  imports Main "HOL-Library.Word"
begin

section \<open>JavaScript values and errors\<close>

text \<open>
  The values that flow through \<^verbatim>\<open>config.ts\<close>: the option flags \<^verbatim>\<open>isGlobal\<close> and
  \<^verbatim>\<open>isState\<close> (tested with lodash's \<^verbatim>\<open>isBoolean\<close>, so any value may arrive there) and
  the \<^verbatim>\<open>contents\<close> of a config (declared \<^verbatim>\<open>object\<close>, written through a parameter of type
  \<^verbatim>\<open>any\<close>). Numbers are restricted to the integers from \<open>- 2\<^sup>5\<^sup>3\<close> to \<open>2\<^sup>5\<^sup>3 - 1\<close>,
  which a Number holds exactly: a signed word of 54 bits. An object is the list of its
  own properties in insertion order.
\<close>

datatype jsval =
    JUndefined
  | JNull
  | JBool bool
  | JNum "54 word"
  | JStr string
  | JArr "jsval list"
  | JObj "(string \<times> jsval) list"

text \<open>Truthiness, as \<^verbatim>\<open>if (x)\<close>, \<^verbatim>\<open>!x\<close>, \<^verbatim>\<open>x ? a : b\<close>, \<^verbatim>\<open>a && b\<close> and \<^verbatim>\<open>a || b\<close> use it.\<close>

fun js_truthy :: "jsval \<Rightarrow> bool" where
  "js_truthy JUndefined = False"
| "js_truthy JNull = False"
| "js_truthy (JBool b) = b"
| "js_truthy (JNum n) = (n \<noteq> 0)"
| "js_truthy (JStr s) = (s \<noteq> [])"
| "js_truthy (JArr xs) = True"
| "js_truthy (JObj kvs) = True"

definition js_and :: "jsval \<Rightarrow> jsval \<Rightarrow> jsval" where
  "js_and a b = (if js_truthy a then b else a)"

definition js_or :: "jsval \<Rightarrow> jsval \<Rightarrow> jsval" where
  "js_or a b = (if js_truthy a then a else b)"

text \<open>lodash \<^verbatim>\<open>isBoolean\<close> and \<^verbatim>\<open>isNil\<close>.\<close>

fun isBoolean :: "jsval \<Rightarrow> bool" where
  "isBoolean (JBool b) = True"
| "isBoolean v = False"

fun isNil :: "jsval \<Rightarrow> bool" where
  "isNil JUndefined = True"
| "isNil JNull = True"
| "isNil v = False"

text \<open>
  A thrown value: an error object with its \<^verbatim>\<open>name\<close>, its \<^verbatim>\<open>message\<close> and, for system
  errors, its \<^verbatim>\<open>code\<close> (\<^verbatim>\<open>'ENOENT'\<close>, \<^verbatim>\<open>'EACCES'\<close>, ...); \<open>None\<close> is an error without
  a \<^verbatim>\<open>code\<close> property.
\<close>

datatype js_error = JsError (err_name: string) (err_message: string) (err_code: "string option")

text \<open>\<^verbatim>\<open>new SfdxError(message, name)\<close>, with the argument order of the source.\<close>

definition SfdxError :: "string \<Rightarrow> string \<Rightarrow> js_error" where
  "SfdxError message name = JsError name message None"

section \<open>JSON.stringify\<close>

text \<open>
  \<^verbatim>\<open>JSON.stringify(value, null, space)\<close> of ECMAScript, on the values above:
  \<^verbatim>\<open>QuoteJSONString\<close> escapes the quote, the backslash and the control characters;
  \<^verbatim>\<open>SerializeJSONProperty\<close> lays arrays and objects out with the gap (\<open>space\<close> blanks, at
  most ten) added to the indentation at each level, or compactly when the gap is empty.
  An \<^verbatim>\<open>undefined\<close> array element is written \<^verbatim>\<open>null\<close>, an \<^verbatim>\<open>undefined\<close> property is left
  out, and \<^verbatim>\<open>JSON.stringify(undefined)\<close> is \<^verbatim>\<open>undefined\<close> (\<open>None\<close>).
\<close>

definition dquote :: char where
  "dquote = CHR 0x22"

definition backslash :: char where
  "backslash = CHR 0x5C"

definition newline :: char where
  "newline = CHR 0x0A"

definition hexdigit :: "nat \<Rightarrow> char" where
  "hexdigit n = ''0123456789abcdef'' ! n"

definition quote_char :: "char \<Rightarrow> string" where
  "quote_char c =
     (if c = dquote then [backslash, dquote]
      else if c = backslash then [backslash, backslash]
      else if c = CHR 0x08 then [backslash, CHR ''b'']
      else if c = CHR 0x0C then [backslash, CHR ''f'']
      else if c = CHR 0x0A then [backslash, CHR ''n'']
      else if c = CHR 0x0D then [backslash, CHR ''r'']
      else if c = CHR 0x09 then [backslash, CHR ''t'']
      else if (of_char c :: nat) < 32 then
        [backslash, CHR ''u'', CHR ''0'', CHR ''0'',
         hexdigit (of_char c div 16), hexdigit (of_char c mod 16)]
      else [c])"

definition QuoteJSONString :: "string \<Rightarrow> string" where
  "QuoteJSONString s = dquote # concat (map quote_char s) @ [dquote]"

fun show_nat :: "nat \<Rightarrow> string" where
  "show_nat n =
     (if n < 10 then [''0123456789'' ! n]
      else show_nat (n div 10) @ [''0123456789'' ! (n mod 10)])"

declare show_nat.simps [simp del]

definition decimal :: "int \<Rightarrow> string" where
  "decimal i = (if i < 0 then CHR ''-'' # show_nat (nat (- i)) else show_nat (nat i))"

text \<open>
  \<^verbatim>\<open>Number::toString\<close>: an integer of magnitude below \<open>10\<^sup>2\<^sup>1\<close> is written with its
  decimal digits, and every number of \<open>jsval\<close> is below \<open>2\<^sup>5\<^sup>3\<close> in magnitude.
\<close>

definition Number_toString :: "54 word \<Rightarrow> string" where
  "Number_toString n = decimal (sint n)"

fun join_with :: "string \<Rightarrow> string list \<Rightarrow> string" where
  "join_with sep [] = []"
| "join_with sep [x] = x"
| "join_with sep (x # y # ys) = x @ sep @ join_with sep (y # ys)"

fun SerializeJSONProperty :: "string \<Rightarrow> string \<Rightarrow> jsval \<Rightarrow> string" where
  "SerializeJSONProperty gap indent JUndefined = ''null''"
| "SerializeJSONProperty gap indent JNull = ''null''"
| "SerializeJSONProperty gap indent (JBool b) = (if b then ''true'' else ''false'')"
| "SerializeJSONProperty gap indent (JNum n) = Number_toString n"
| "SerializeJSONProperty gap indent (JStr s) = QuoteJSONString s"
| "SerializeJSONProperty gap indent (JArr xs) =
     (let stepback = indent; indent' = indent @ gap;
          partial = map (SerializeJSONProperty gap indent') xs
      in if partial = [] then ''[]''
         else if gap = [] then ''['' @ join_with '','' partial @ '']''
         else ''['' @ [newline] @ indent' @ join_with ('','' @ [newline] @ indent') partial
              @ [newline] @ stepback @ '']'')"
| "SerializeJSONProperty gap indent (JObj kvs) =
     (let stepback = indent; indent' = indent @ gap;
          partial = map (\<lambda>kv. QuoteJSONString (fst kv) @ (if gap = [] then '':'' else '': '')
                               @ SerializeJSONProperty gap indent' (snd kv))
                      (filter (\<lambda>kv. snd kv \<noteq> JUndefined) kvs)
      in if partial = [] then ''{}''
         else if gap = [] then ''{'' @ join_with '','' partial @ ''}''
         else ''{'' @ [newline] @ indent' @ join_with ('','' @ [newline] @ indent') partial
              @ [newline] @ stepback @ ''}'')"

definition JSON_stringify :: "jsval \<Rightarrow> nat \<Rightarrow> string option" where
  "JSON_stringify v space =
     (if v = JUndefined then None
      else Some (SerializeJSONProperty (replicate (min 10 space) CHR '' '') [] v))"

section \<open>Collaborators\<close>

text \<open>
  \<^verbatim>\<open>config.ts\<close> reaches the outside through \<^verbatim>\<open>os.homedir\<close>, \<^verbatim>\<open>path.join\<close>,
  \<^verbatim>\<open>path.dirname\<close>, \<^verbatim>\<open>Global.STATE_FOLDER\<close>, \<^verbatim>\<open>ProjectDir.getPath\<close> and the
  \<^verbatim>\<open>SfdxUtil\<close> file operations. None of them is defined in \<^verbatim>\<open>config.ts\<close>, so the
  embedding takes them as parameters: an environment \<open>E\<close> over a file-system state
  \<open>'w\<close>. An asynchronous operation takes the state and returns its outcome
  (\<open>Inl\<close> a rejection, \<open>Inr\<close> the resolved value) with the new state. The data
  handed to \<^verbatim>\<open>writeFile\<close> is what \<^verbatim>\<open>JSON.stringify\<close> returned: a string or
  \<^verbatim>\<open>undefined\<close>.
\<close>

record Stats =
  st_size :: nat
  st_mode :: nat
  st_isDirectory :: bool

record 'w env =
  osHomedir :: string
  STATE_FOLDER :: string
  pathJoin :: "string list \<Rightarrow> string"
  pathDirname :: "string \<Rightarrow> string"
  ProjectDir_getPath :: "'w \<Rightarrow> (js_error + string) \<times> 'w"
  SfdxUtil_access :: "string \<Rightarrow> nat \<Rightarrow> 'w \<Rightarrow> (js_error + unit) \<times> 'w"
  SfdxUtil_readJSON :: "string \<Rightarrow> 'w \<Rightarrow> (js_error + jsval) \<times> 'w"
  SfdxUtil_mkdirp :: "string \<Rightarrow> 'w \<Rightarrow> (js_error + unit) \<times> 'w"
  SfdxUtil_writeFile :: "string \<Rightarrow> string option \<Rightarrow> 'w \<Rightarrow> (js_error + unit) \<times> 'w"
  SfdxUtil_stat :: "string \<Rightarrow> 'w \<Rightarrow> (js_error + Stats) \<times> 'w"
  SfdxUtil_unlink :: "string \<Rightarrow> 'w \<Rightarrow> (js_error + unit) \<times> 'w"

text \<open>
  Every call of an asynchronous collaborator is recorded, in order, next to the
  file-system state, so that a statement can say which calls a method made.
\<close>

datatype call =
    CallProjectDir
  | CallAccess string nat
  | CallReadJSON string
  | CallMkdirp string
  | CallWriteFile string "string option"
  | CallStat string
  | CallUnlink string

record 'w world =
  fs :: 'w
  calls :: "call list"

definition invoke :: "call \<Rightarrow> ('w \<Rightarrow> 'r \<times> 'w) \<Rightarrow> 'w world \<Rightarrow> 'r \<times> 'w world" where
  "invoke c f s = (case f (fs s) of (r, w) \<Rightarrow> (r, \<lparr>fs = w, calls = calls s @ [c]\<rparr>))"

section \<open>Config\<close>

record ConfigOptions =
  rootFolder :: "string option"
  filename :: "string option"
  isGlobal :: jsval
  isState :: jsval
  filePath :: "string option"

record Config =
  options :: ConfigOptions
  path :: string
  contents :: jsval

text \<open>\<^verbatim>\<open>fs.constants.R_OK\<close>.\<close>

definition R_OK :: nat where
  "R_OK = 4"

text \<open>Truthiness of an optional string: \<^verbatim>\<open>undefined\<close> and \<^verbatim>\<open>''\<close> are falsy.\<close>

fun str_truthy :: "string option \<Rightarrow> bool" where
  "str_truthy None = False"
| "str_truthy (Some s) = (s \<noteq> [])"

definition resolveRootFolder ::
  "'w env \<Rightarrow> jsval \<Rightarrow> 'w world \<Rightarrow> (js_error + string) \<times> 'w world" where
  "resolveRootFolder E g s =
     (if \<not> isBoolean g
      then (Inl (SfdxError ''isGlobal must be a boolean'' ''InvalidTypeForIsGlobal''), s)
      else if js_truthy g then (Inr (osHomedir E), s)
      else invoke CallProjectDir (ProjectDir_getPath E) s)"

definition create ::
  "'w env \<Rightarrow> ConfigOptions \<Rightarrow> 'w world \<Rightarrow> (js_error + Config) \<times> 'w world" where
  "create E opts s =
     (case filename opts of
        None \<Rightarrow>
          (Inl (SfdxError ''The ConfigOptions filename parameter is invalid.''
                  ''InvalidParameter''), s)
      | Some fname \<Rightarrow>
          (if fname = [] then
             (Inl (SfdxError ''The ConfigOptions filename parameter is invalid.''
                     ''InvalidParameter''), s)
           else
             (let isGlobal' = js_and (JBool (isBoolean (isGlobal opts))) (isGlobal opts);
                  isState' = js_and (JBool (isBoolean (isState opts))) (isState opts);
                  resolved =
                    (case rootFolder opts of
                       None \<Rightarrow> resolveRootFolder E (isGlobal opts) s
                     | Some r \<Rightarrow>
                         (if r = [] then resolveRootFolder E (isGlobal opts) s
                          else (Inr r, s)))
              in (case resolved of
                    (Inl err, s') \<Rightarrow> (Inl err, s')
                  | (Inr configRootFolder, s') \<Rightarrow>
                      (let configRootFolder' =
                             (if js_truthy (js_or isGlobal' isState')
                              then pathJoin E [configRootFolder, STATE_FOLDER E]
                              else configRootFolder)
                       in (Inr \<lparr>options = opts,
                                path = pathJoin E
                                  [configRootFolder',
                                   (case filePath opts of None \<Rightarrow> [] | Some p \<Rightarrow> p),
                                   fname],
                                contents = JUndefined\<rparr>, s'))))))"

definition getPath :: "Config \<Rightarrow> string" where
  "getPath c = path c"

definition getContents :: "Config \<Rightarrow> jsval" where
  "getContents c = js_or (contents c) (JObj [])"

definition setContents :: "jsval \<Rightarrow> Config \<Rightarrow> Config" where
  "setContents v c = c\<lparr>contents := v\<rparr>"

definition getIsGlobal :: "Config \<Rightarrow> jsval" where
  "getIsGlobal c = isGlobal (options c)"

text \<open>
  A method takes the instance and the world and returns its outcome with both, so that
  an assignment to a field of \<^verbatim>\<open>this\<close> is an update of the instance returned.
\<close>

fun access ::
  "'w env \<Rightarrow> nat \<Rightarrow> Config \<times> 'w world \<Rightarrow> (js_error + bool) \<times> Config \<times> 'w world" where
  "access E perm (c, s) =
     (case invoke (CallAccess (getPath c) perm) (SfdxUtil_access E (getPath c) perm) s of
        (Inr u, s') \<Rightarrow> (Inr True, c, s')
      | (Inl err, s') \<Rightarrow> (Inr False, c, s'))"

text \<open>
  The parameter \<open>throwOnNotFound\<close> is optional: \<open>None\<close> is a call without the argument,
  which takes the default of the signature.
\<close>

fun read ::
  "'w env \<Rightarrow> bool option \<Rightarrow> Config \<times> 'w world \<Rightarrow> (js_error + jsval) \<times> Config \<times> 'w world" where
  "read E throwOnNotFound (c, s) =
     (let throwOnNotFound' = (case throwOnNotFound of None \<Rightarrow> False | Some b \<Rightarrow> b)
      in case invoke (CallReadJSON (getPath c)) (SfdxUtil_readJSON E (getPath c)) s of
           (Inr v, s') \<Rightarrow>
             (let c' = setContents v c in (Inr (contents c'), c', s'))
         | (Inl err, s') \<Rightarrow>
             if err_code err = Some ''ENOENT'' then
               (if \<not> throwOnNotFound' then
                  (let c' = setContents (JObj []) c in (Inr (contents c'), c', s'))
                else (Inl err, c, s'))
             else (Inl err, c, s'))"

fun readJSON ::
  "'w env \<Rightarrow> bool option \<Rightarrow> Config \<times> 'w world \<Rightarrow> (js_error + jsval) \<times> Config \<times> 'w world" where
  "readJSON E throwOnNotFound (c, s) =
     (let throwOnNotFound' = (case throwOnNotFound of None \<Rightarrow> True | Some b \<Rightarrow> b)
      in read E (Some throwOnNotFound') (c, s))"

fun write_config ::
  "'w env \<Rightarrow> jsval \<Rightarrow> Config \<times> 'w world \<Rightarrow> (js_error + jsval) \<times> Config \<times> 'w world" where
  "write_config E newContents (c, s) =
     (let c1 = (if \<not> isNil newContents then setContents newContents c else c);
          dir = pathDirname E (getPath c1)
      in case invoke (CallMkdirp dir) (SfdxUtil_mkdirp E dir) s of
           (Inl err, s1) \<Rightarrow> (Inl err, c1, s1)
         | (Inr u, s1) \<Rightarrow>
             (let data = JSON_stringify (getContents c1) 4
              in case invoke (CallWriteFile (getPath c1) data)
                        (SfdxUtil_writeFile E (getPath c1) data) s1 of
                   (Inl err, s2) \<Rightarrow> (Inl err, c1, s2)
                 | (Inr u', s2) \<Rightarrow> (Inr (getContents c1), c1, s2)))"

fun exists ::
  "'w env \<Rightarrow> Config \<times> 'w world \<Rightarrow> (js_error + bool) \<times> Config \<times> 'w world" where
  "exists E (c, s) = access E R_OK (c, s)"

fun stat ::
  "'w env \<Rightarrow> Config \<times> 'w world \<Rightarrow> (js_error + Stats) \<times> Config \<times> 'w world" where
  "stat E (c, s) =
     (case invoke (CallStat (getPath c)) (SfdxUtil_stat E (getPath c)) s of
        (r, s') \<Rightarrow> (r, c, s'))"

fun unlink ::
  "'w env \<Rightarrow> Config \<times> 'w world \<Rightarrow> (js_error + unit) \<times> Config \<times> 'w world" where
  "unlink E (c, s) =
     (case exists E (c, s) of
        (Inl err, c1, s1) \<Rightarrow> (Inl err, c1, s1)
      | (Inr ex, c1, s1) \<Rightarrow>
          if ex then
            (case invoke (CallUnlink (getPath c1)) (SfdxUtil_unlink E (getPath c1)) s1 of
               (r, s2) \<Rightarrow> (r, c1, s2))
          else
            (Inl (SfdxError (''Target file doesn't exist. path: '' @ getPath c1)
                    ''TargetFileNotFound''), c1, s1))"

section \<open>JSON.parse\<close>

text \<open>
  \<^verbatim>\<open>JSON.parse(text)\<close> of ECMAScript, which the file system below uses to read a
  config back: a recursive-descent parser of the JSON grammar. The recursion is on a
  bound that \<open>JSON_parse\<close> sets above the length of the text, so that it is total. A
  repeated key keeps its first position and its last value, as property assignment
  does. Number literals with a fraction or an exponent, or outside the 54 bits of a
  number of \<open>jsval\<close>, and \<^verbatim>\<open>\u\<close> escapes above \<^verbatim>\<open>00ff\<close>, have no value in \<open>jsval\<close> and are
  refused.
\<close>

definition is_ws :: "char \<Rightarrow> bool" where
  "is_ws c = (c = CHR '' '' \<or> c = CHR 0x09 \<or> c = CHR 0x0A \<or> c = CHR 0x0D)"

definition skip_ws :: "string \<Rightarrow> string" where
  "skip_ws cs = dropWhile is_ws cs"

definition is_digit :: "char \<Rightarrow> bool" where
  "is_digit c = (c \<in> set ''0123456789'')"

definition digit_val :: "char \<Rightarrow> nat" where
  "digit_val c = of_char c - 48"

definition hex_val :: "char \<Rightarrow> nat option" where
  "hex_val c =
     (if is_digit c then Some (digit_val c)
      else if c \<in> set ''abcdef'' then Some (of_char c - 87)
      else if c \<in> set ''ABCDEF'' then Some (of_char c - 55)
      else None)"

definition unescape :: "char \<Rightarrow> char option" where
  "unescape e =
     (if e = dquote then Some dquote
      else if e = backslash then Some backslash
      else if e = CHR ''/'' then Some CHR ''/''
      else if e = CHR ''b'' then Some (CHR 0x08)
      else if e = CHR ''f'' then Some (CHR 0x0C)
      else if e = CHR ''n'' then Some (CHR 0x0A)
      else if e = CHR ''r'' then Some (CHR 0x0D)
      else if e = CHR ''t'' then Some (CHR 0x09)
      else None)"

fun parse_chars :: "string \<Rightarrow> (string \<times> string) option" where
  "parse_chars [] = None"
| "parse_chars (c # cs) =
     (if c = dquote then Some ([], cs)
      else if c = backslash then
        (case cs of
           [] \<Rightarrow> None
         | e # r \<Rightarrow>
             if e = CHR ''u'' then
               (case r of
                  h1 # h2 # h3 # h4 # r' \<Rightarrow>
                    (case (hex_val h1, hex_val h2, hex_val h3, hex_val h4) of
                       (Some a, Some b, Some c', Some d) \<Rightarrow>
                         if a = 0 \<and> b = 0 then
                           map_option (\<lambda>(s, t). (char_of (16 * c' + d) # s, t)) (parse_chars r')
                         else None
                     | _ \<Rightarrow> None)
                | _ \<Rightarrow> None)
             else
               (case unescape e of
                  None \<Rightarrow> None
                | Some x \<Rightarrow> map_option (\<lambda>(s, t). (x # s, t)) (parse_chars r)))
      else if (of_char c :: nat) < 32 then None
      else map_option (\<lambda>(s, t). (c # s, t)) (parse_chars cs))"

definition parse_number :: "string \<Rightarrow> (jsval \<times> string) option" where
  "parse_number cs =
     (let neg = (cs \<noteq> [] \<and> hd cs = CHR ''-'');
          body = (if neg then tl cs else cs);
          ds = takeWhile is_digit body;
          rest = dropWhile is_digit body;
          n = foldl (\<lambda>a c. 10 * a + digit_val c) 0 ds
      in if ds = [] then None
         else if hd ds = CHR ''0'' \<and> tl ds \<noteq> [] then None
         else if rest \<noteq> [] \<and> hd rest \<in> set ''.eE'' then None
         else
           (let i = (if neg then - int n else int n)
            in if - (2 ^ 53) \<le> i \<and> i < 2 ^ 53 then Some (JNum (word_of_int i), rest)
               else None))"

fun upsert :: "string \<Rightarrow> jsval \<Rightarrow> (string \<times> jsval) list \<Rightarrow> (string \<times> jsval) list" where
  "upsert k v [] = [(k, v)]"
| "upsert k v (p # ps) = (if fst p = k then (k, v) # ps else p # upsert k v ps)"

definition mk_object :: "(string \<times> jsval) list \<Rightarrow> jsval" where
  "mk_object kvs = JObj (foldl (\<lambda>acc kv. upsert (fst kv) (snd kv) acc) [] kvs)"

fun parse_value :: "nat \<Rightarrow> string \<Rightarrow> (jsval \<times> string) option"
and parse_elements :: "nat \<Rightarrow> string \<Rightarrow> (jsval list \<times> string) option"
and parse_members :: "nat \<Rightarrow> string \<Rightarrow> ((string \<times> jsval) list \<times> string) option" where
  "parse_value 0 cs = None"
| "parse_value (Suc n) cs =
     (case skip_ws cs of
        [] \<Rightarrow> None
      | c # r \<Rightarrow>
          if c = CHR ''{'' then
            (case skip_ws r of
               [] \<Rightarrow> None
             | c2 # r2 \<Rightarrow>
                 if c2 = CHR ''}'' then Some (JObj [], r2)
                 else map_option (\<lambda>(kvs, t). (mk_object kvs, t)) (parse_members n r))
          else if c = CHR ''['' then
            (case skip_ws r of
               [] \<Rightarrow> None
             | c2 # r2 \<Rightarrow>
                 if c2 = CHR '']'' then Some (JArr [], r2)
                 else map_option (\<lambda>(xs, t). (JArr xs, t)) (parse_elements n r))
          else if c = dquote then map_option (\<lambda>(s, t). (JStr s, t)) (parse_chars r)
          else if take 4 (c # r) = ''true'' then Some (JBool True, drop 4 (c # r))
          else if take 5 (c # r) = ''false'' then Some (JBool False, drop 5 (c # r))
          else if take 4 (c # r) = ''null'' then Some (JNull, drop 4 (c # r))
          else parse_number (c # r))"
| "parse_elements 0 cs = None"
| "parse_elements (Suc n) cs =
     (case parse_value n cs of
        None \<Rightarrow> None
      | Some (v, r) \<Rightarrow>
          (case skip_ws r of
             [] \<Rightarrow> None
           | c # r' \<Rightarrow>
               if c = CHR '','' then map_option (\<lambda>(xs, t). (v # xs, t)) (parse_elements n r')
               else if c = CHR '']'' then Some ([v], r')
               else None))"
| "parse_members 0 cs = None"
| "parse_members (Suc n) cs =
     (case skip_ws cs of
        [] \<Rightarrow> None
      | q # r \<Rightarrow>
          if q \<noteq> dquote then None
          else
            (case parse_chars r of
               None \<Rightarrow> None
             | Some (k, r1) \<Rightarrow>
                 (case skip_ws r1 of
                    [] \<Rightarrow> None
                  | c # r2 \<Rightarrow>
                      if c \<noteq> CHR '':'' then None
                      else
                        (case parse_value n r2 of
                           None \<Rightarrow> None
                         | Some (v, r3) \<Rightarrow>
                             (case skip_ws r3 of
                                [] \<Rightarrow> None
                              | d # r4 \<Rightarrow>
                                  if d = CHR '','' then
                                    map_option (\<lambda>(kvs, t). ((k, v) # kvs, t)) (parse_members n r4)
                                  else if d = CHR ''}'' then Some ([(k, v)], r4)
                                  else None)))))"

definition JSON_parse :: "string \<Rightarrow> jsval option" where
  "JSON_parse text =
     (case parse_value (Suc (length text)) text of
        None \<Rightarrow> None
      | Some (v, rest) \<Rightarrow> if skip_ws rest = [] then Some v else None)"

section \<open>POSIX paths\<close>

text \<open>
  \<^verbatim>\<open>path.join\<close> and \<^verbatim>\<open>path.dirname\<close> of Node.js on POSIX: \<^verbatim>\<open>join\<close> puts a slash between
  the non-empty segments and normalises the result (\<^verbatim>\<open>.\<close>, \<^verbatim>\<open>..\<close> and repeated slashes);
  \<^verbatim>\<open>dirname\<close> drops the last segment and the slashes after it.
\<close>

fun split_on :: "char \<Rightarrow> string \<Rightarrow> string list" where
  "split_on d [] = [[]]"
| "split_on d (c # cs) =
     (if c = d then [] # split_on d cs
      else (case split_on d cs of [] \<Rightarrow> [[c]] | x # xs \<Rightarrow> (c # x) # xs))"

fun normalizeString :: "bool \<Rightarrow> string list \<Rightarrow> string list \<Rightarrow> string list" where
  "normalizeString allowAboveRoot res [] = res"
| "normalizeString allowAboveRoot res (x # xs) =
     (if x = [] \<or> x = ''.'' then normalizeString allowAboveRoot res xs
      else if x = ''..'' then
        (if res \<noteq> [] \<and> last res \<noteq> ''..'' then normalizeString allowAboveRoot (butlast res) xs
         else if allowAboveRoot then normalizeString allowAboveRoot (res @ [''..'']) xs
         else normalizeString allowAboveRoot res xs)
      else normalizeString allowAboveRoot (res @ [x]) xs)"

definition posix_normalize :: "string \<Rightarrow> string" where
  "posix_normalize p =
     (if p = [] then ''.''
      else
        (let isAbsolute = (hd p = CHR ''/'');
             trailingSeparator = (last p = CHR ''/'');
             body = join_with ''/'' (normalizeString (\<not> isAbsolute) [] (split_on CHR ''/'' p))
         in if body = [] then
              (if isAbsolute then ''/'' else if trailingSeparator then ''./'' else ''.'')
            else (if isAbsolute then ''/'' else []) @ body
                 @ (if trailingSeparator then ''/'' else [])))"

definition posix_join :: "string list \<Rightarrow> string" where
  "posix_join args =
     (let given = filter (\<lambda>a. a \<noteq> []) args
      in if given = [] then ''.'' else posix_normalize (join_with ''/'' given))"

definition posix_dirname :: "string \<Rightarrow> string" where
  "posix_dirname p =
     (if p = [] then ''.''
      else
        (let hasRoot = (hd p = CHR ''/'');
             trimmed = rev (dropWhile (\<lambda>c. c = CHR ''/'') (rev (tl p)));
             upto_slash = rev (dropWhile (\<lambda>c. c \<noteq> CHR ''/'') (rev trimmed));
             end = length upto_slash
         in if upto_slash = [] then (if hasRoot then ''/'' else ''.'')
            else if hasRoot \<and> end = 1 then ''//''
            else take end p))"

section \<open>An in-memory file system\<close>

text \<open>
  Modelled from the spec: the file-system layer behind \<^verbatim>\<open>SfdxUtil\<close> and the project
  root locator \<^verbatim>\<open>ProjectDir.getPath\<close>, neither of which is in \<^verbatim>\<open>config.ts\<close>. The spec
  gives their interface: \<^verbatim>\<open>access(path, perm)\<close> fails on denial or absence,
  \<^verbatim>\<open>readFile(path)\<close> fails NotFound if absent, \<^verbatim>\<open>writeFile(path, bytes)\<close> overwrites the
  whole file, \<^verbatim>\<open>mkdirRecursive(path)\<close> creates the chain of directories and is
  idempotent, \<^verbatim>\<open>stat(path)\<close> returns metadata, \<^verbatim>\<open>unlink(path)\<close> deletes, and
  \<^verbatim>\<open>resolveProjectRoot()\<close> fails if there is no project. A file has permission bits
  (read 4, write 2, execute 1) and its text; system errors carry their POSIX code.
\<close>

record mfile =
  f_mode :: nat
  f_data :: string

record memfs =
  files :: "string \<rightharpoonup> mfile"
  dirs :: "string set"
  project_root :: "string option"

definition sys_error :: "string \<Rightarrow> js_error" where
  "sys_error code = JsError ''Error'' code (Some code)"

definition mem_getPath :: "memfs \<Rightarrow> (js_error + string) \<times> memfs" where
  "mem_getPath w =
     (case project_root w of
        None \<Rightarrow> (Inl (SfdxError ''This directory does not contain a valid project.''
                         ''InvalidProjectWorkspace''), w)
      | Some r \<Rightarrow> (Inr r, w))"

definition mem_access :: "string \<Rightarrow> nat \<Rightarrow> memfs \<Rightarrow> (js_error + unit) \<times> memfs" where
  "mem_access p perm w =
     (case files w p of
        Some f \<Rightarrow> if and perm (f_mode f) = perm then (Inr (), w)
                  else (Inl (sys_error ''EACCES''), w)
      | None \<Rightarrow> if p \<in> dirs w then (Inr (), w) else (Inl (sys_error ''ENOENT''), w))"

definition mem_readJSON :: "string \<Rightarrow> memfs \<Rightarrow> (js_error + jsval) \<times> memfs" where
  "mem_readJSON p w =
     (case files w p of
        Some f \<Rightarrow>
          if and 4 (f_mode f) = 4 then
            (case JSON_parse (f_data f) of
               Some v \<Rightarrow> (Inr v, w)
             | None \<Rightarrow> (Inl (JsError ''SyntaxError'' ''Unexpected token in JSON'' None), w))
          else (Inl (sys_error ''EACCES''), w)
      | None \<Rightarrow> if p \<in> dirs w then (Inl (sys_error ''EISDIR''), w)
                else (Inl (sys_error ''ENOENT''), w))"

fun dir_chain :: "nat \<Rightarrow> string \<Rightarrow> string list" where
  "dir_chain 0 d = [d]"
| "dir_chain (Suc n) d =
     (if posix_dirname d = d then [d] else d # dir_chain n (posix_dirname d))"

definition mem_mkdirp :: "string \<Rightarrow> memfs \<Rightarrow> (js_error + unit) \<times> memfs" where
  "mem_mkdirp d w =
     (let chain = dir_chain (length d) d
      in if list_ex (\<lambda>x. files w x \<noteq> None) chain then (Inl (sys_error ''EEXIST''), w)
         else (Inr (), w\<lparr>dirs := dirs w \<union> set chain\<rparr>))"

definition mem_writeFile ::
  "string \<Rightarrow> string option \<Rightarrow> memfs \<Rightarrow> (js_error + unit) \<times> memfs" where
  "mem_writeFile p data w =
     (case data of
        None \<Rightarrow> (Inl (JsError ''TypeError'' ''The data argument must be a string'' None), w)
      | Some text \<Rightarrow>
          if p \<in> dirs w then (Inl (sys_error ''EISDIR''), w)
          else if posix_dirname p \<notin> dirs w then (Inl (sys_error ''ENOENT''), w)
          else
            (case files w p of
               None \<Rightarrow> (Inr (), w\<lparr>files := (files w)(p \<mapsto> \<lparr>f_mode = 6, f_data = text\<rparr>)\<rparr>)
             | Some f \<Rightarrow>
                 if and 2 (f_mode f) = 2
                 then (Inr (), w\<lparr>files := (files w)(p \<mapsto> f\<lparr>f_data := text\<rparr>)\<rparr>)
                 else (Inl (sys_error ''EACCES''), w)))"

definition mem_stat :: "string \<Rightarrow> memfs \<Rightarrow> (js_error + Stats) \<times> memfs" where
  "mem_stat p w =
     (case files w p of
        Some f \<Rightarrow>
          (Inr \<lparr>st_size = length (f_data f), st_mode = f_mode f, st_isDirectory = False\<rparr>, w)
      | None \<Rightarrow>
          if p \<in> dirs w then (Inr \<lparr>st_size = 0, st_mode = 7, st_isDirectory = True\<rparr>, w)
          else (Inl (sys_error ''ENOENT''), w))"

definition mem_unlink :: "string \<Rightarrow> memfs \<Rightarrow> (js_error + unit) \<times> memfs" where
  "mem_unlink p w =
     (case files w p of
        Some f \<Rightarrow> (Inr (), w\<lparr>files := (files w)(p := None)\<rparr>)
      | None \<Rightarrow> if p \<in> dirs w then (Inl (sys_error ''EISDIR''), w)
                else (Inl (sys_error ''ENOENT''), w))"

text \<open>
  The environment of a POSIX user whose home directory is \<^verbatim>\<open>/home/user\<close>, with the
  state folder \<^verbatim>\<open>.sfdx\<close> that the class comment of \<^verbatim>\<open>Config\<close> names.
\<close>

definition mem_env :: "memfs env" where
  "mem_env =
     \<lparr>osHomedir = ''/home/user'',
      STATE_FOLDER = ''.sfdx'',
      pathJoin = posix_join,
      pathDirname = posix_dirname,
      ProjectDir_getPath = mem_getPath,
      SfdxUtil_access = mem_access,
      SfdxUtil_readJSON = mem_readJSON,
      SfdxUtil_mkdirp = mem_mkdirp,
      SfdxUtil_writeFile = mem_writeFile,
      SfdxUtil_stat = mem_stat,
      SfdxUtil_unlink = mem_unlink\<rparr>"

text \<open>A file system with the root directory only, and the world that starts there.\<close>

definition empty_fs :: memfs where
  "empty_fs = \<lparr>files = Map.empty, dirs = {''/''}, project_root = None\<rparr>"

definition start :: "'w \<Rightarrow> 'w world" where
  "start w = \<lparr>fs = w, calls = []\<rparr>"

section \<open>The lifetime of an instance\<close>

text \<open>
  The operations a caller can apply to a created instance. \<open>perform\<close> runs one and
  keeps the instance and the world it leaves, whatever the outcome (a caller may catch
  a rejection and go on); \<open>lifetime\<close> runs a sequence of them.
\<close>

datatype operation =
    OpAccess nat
  | OpRead "bool option"
  | OpReadJSON "bool option"
  | OpWrite jsval
  | OpExists
  | OpStat
  | OpUnlink
  | OpSetContents jsval

fun perform :: "'w env \<Rightarrow> operation \<Rightarrow> Config \<times> 'w world \<Rightarrow> Config \<times> 'w world" where
  "perform E (OpAccess perm) cs = snd (access E perm cs)"
| "perform E (OpRead t) cs = snd (read E t cs)"
| "perform E (OpReadJSON t) cs = snd (readJSON E t cs)"
| "perform E (OpWrite v) cs = snd (write_config E v cs)"
| "perform E OpExists cs = snd (exists E cs)"
| "perform E OpStat cs = snd (stat E cs)"
| "perform E OpUnlink cs = snd (unlink E cs)"
| "perform E (OpSetContents v) cs = (setContents v (fst cs), snd cs)"

fun lifetime :: "'w env \<Rightarrow> operation list \<Rightarrow> Config \<times> 'w world \<Rightarrow> Config \<times> 'w world" where
  "lifetime E [] cs = cs"
| "lifetime E (op # ops) cs = lifetime E ops (perform E op cs)"

section \<open>Example instances\<close>

text \<open>
  A global config: the options, and the instance that \<open>create\<close> returns for them in
  \<open>mem_env\<close>. Options with the file name alone, and a file system with a project at
  \<^verbatim>\<open>/work/project\<close>. Two file systems that hold a file at the path of the global config:
  one where the file can be written and not read, and one where its text is not JSON.
\<close>

definition global_options :: ConfigOptions where
  "global_options =
     \<lparr>rootFolder = None, filename = Some ''config.json'', isGlobal = JBool True,
      isState = JUndefined, filePath = None\<rparr>"

definition global_config :: Config where
  "global_config =
     \<lparr>options = global_options, path = ''/home/user/.sfdx/config.json'',
      contents = JUndefined\<rparr>"

definition local_options :: ConfigOptions where
  "local_options =
     \<lparr>rootFolder = None, filename = Some ''config.json'', isGlobal = JUndefined,
      isState = JUndefined, filePath = None\<rparr>"

definition project_fs :: memfs where
  "project_fs =
     \<lparr>files = Map.empty, dirs = {''/'', ''/work'', ''/work/project''},
      project_root = Some ''/work/project''\<rparr>"

definition home_dirs :: "string set" where
  "home_dirs = {''/'', ''/home'', ''/home/user'', ''/home/user/.sfdx''}"

definition unreadable_fs :: memfs where
  "unreadable_fs =
     \<lparr>files = [''/home/user/.sfdx/config.json'' \<mapsto> \<lparr>f_mode = 2, f_data = ''{}''\<rparr>],
      dirs = home_dirs, project_root = None\<rparr>"

definition malformed_fs :: memfs where
  "malformed_fs =
     \<lparr>files = [''/home/user/.sfdx/config.json'' \<mapsto> \<lparr>f_mode = 6, f_data = ''{oops''\<rparr>],
      dirs = home_dirs, project_root = None\<rparr>"

section \<open>What the specification says, in its own words\<close>

text \<open>
  The path layout of the specification, to compare with what \<open>create\<close> computes: a
  flag is effective when it is the boolean \<^verbatim>\<open>true\<close> (anything else counts as false);
  the base is the root folder the caller gave, or else the home directory when
  \<^verbatim>\<open>isGlobal\<close> is \<^verbatim>\<open>true\<close> and the project root otherwise; the state folder is appended
  to the base when either flag is effective; the path joins the base, the optional
  sub-directory and the file name. \<open>spec_create\<close> is the creation that stores this path.
\<close>

definition effective :: "jsval \<Rightarrow> bool" where
  "effective flag = (flag = JBool True)"

definition spec_base ::
  "'w env \<Rightarrow> ConfigOptions \<Rightarrow> 'w world \<Rightarrow> (js_error + string) \<times> 'w world" where
  "spec_base E opts s =
     (case rootFolder opts of
        Some given \<Rightarrow>
          if given \<noteq> [] then (Inr given, s)
          else if isGlobal opts = JBool True then (Inr (osHomedir E), s)
          else invoke CallProjectDir (ProjectDir_getPath E) s
      | None \<Rightarrow>
          if isGlobal opts = JBool True then (Inr (osHomedir E), s)
          else invoke CallProjectDir (ProjectDir_getPath E) s)"

definition spec_path :: "'w env \<Rightarrow> ConfigOptions \<Rightarrow> string \<Rightarrow> string" where
  "spec_path E opts base =
     pathJoin E
       [if effective (isGlobal opts) \<or> effective (isState opts)
        then pathJoin E [base, STATE_FOLDER E] else base,
        case filePath opts of None \<Rightarrow> [] | Some p \<Rightarrow> p,
        case filename opts of None \<Rightarrow> [] | Some f \<Rightarrow> f]"

definition spec_create ::
  "'w env \<Rightarrow> ConfigOptions \<Rightarrow> 'w world \<Rightarrow> (js_error + Config) \<times> 'w world" where
  "spec_create E opts s =
     (case spec_base E opts s of
        (Inl err, s') \<Rightarrow> (Inl err, s')
      | (Inr base, s') \<Rightarrow>
          (Inr \<lparr>options = opts, path = spec_path E opts base, contents = JUndefined\<rparr>, s'))"


section \<open>Well-formed JSON values\<close>





section \<open>Properties\<close>

subsection \<open>Auxiliary facts\<close>

lemma js_and_isBoolean: "js_truthy (js_and (JBool (isBoolean g)) g) = effective g"
  by (cases g) (simp_all add: js_and_def effective_def)

lemma js_or_truthy: "js_truthy (js_or a b) = (js_truthy a \<or> js_truthy b)"
  by (simp add: js_or_def)






text \<open>The in-memory file system does what the spec says of the file-system layer.\<close>

lemma dir_chain_self: "d \<in> set (dir_chain n d)"
  by (cases n) simp_all


lemma mem_mkdirp_idempotent:
  assumes "mem_mkdirp d w = (Inr u, w1)"
  shows "mem_mkdirp d w1 = (Inr (), w1)"
  using assms by (auto simp add: mem_mkdirp_def Let_def split: if_splits)





lemma perform_frame:
  "path (fst (perform E op cs)) = path (fst cs) \<and>
   options (fst (perform E op cs)) = options (fst cs)"
  by (cases cs; cases op)
     (simp_all add: invoke_def setContents_def Let_def
        split: prod.splits sum.splits option.splits)

subsection \<open>JSON.parse inverts JSON.stringify\<close>

















lemma skip_ws_append: "list_all is_ws w \<Longrightarrow> skip_ws (w @ cs) = skip_ws cs"
  by (simp add: skip_ws_def list_all_iff dropWhile_append2)


lemma parse_value_ws: "list_all is_ws w \<Longrightarrow> parse_value n (w @ cs) = parse_value n cs"
  by (cases n) (simp_all add: skip_ws_append)


lemma parse_elements_ws: "list_all is_ws w \<Longrightarrow> parse_elements n (w @ cs) = parse_elements n cs"
  by (cases n) (simp_all add: parse_value_ws)


























subsection \<open>access\<close>

text \<open>
  C8. \<open>access\<close> never throws: for every permission, every environment and every
  outcome of \<^verbatim>\<open>SfdxUtil.access\<close>, the result is a value, \<^verbatim>\<open>true\<close> when the check resolved
  and \<^verbatim>\<open>false\<close> when it was rejected, whatever the error was. The instance is
  unchanged and the check is the only call made.
\<close>

theorem access_never_throws:
  "access E perm (c, s) =
     (Inr (\<not> isl (fst (SfdxUtil_access E (getPath c) perm (fs s)))), c,
      \<lparr>fs = snd (SfdxUtil_access E (getPath c) perm (fs s)),
       calls = calls s @ [CallAccess (getPath c) perm]\<rparr>)"
  by (simp add: invoke_def split: prod.splits sum.splits)

subsection \<open>create\<close>

text \<open>
  C5. When the file name is missing (\<^verbatim>\<open>undefined\<close>, or the empty string, which is
  falsy too), \<open>create\<close> fails with the error named \<^verbatim>\<open>InvalidParameter\<close>, and the world
  is the one it started in: its file system is untouched and no collaborator was
  called, whatever the environment.
\<close>

theorem create_missing_filename:
  "\<not> str_truthy (filename opts) \<Longrightarrow>
   create E opts s =
     (Inl (SfdxError ''The ConfigOptions filename parameter is invalid.'' ''InvalidParameter''), s)"
  by (cases "filename opts") (simp_all add: create_def)

theorem create_missing_filename_witness:
  "\<not> str_truthy (filename \<lparr>rootFolder = None, filename = None, isGlobal = JBool True,
        isState = JUndefined, filePath = None\<rparr>) \<and>
   create mem_env \<lparr>rootFolder = None, filename = None, isGlobal = JBool True,
        isState = JUndefined, filePath = None\<rparr> (start empty_fs) =
     (Inl (JsError ''InvalidParameter'' ''The ConfigOptions filename parameter is invalid.'' None),
      \<lparr>fs = empty_fs, calls = []\<rparr>)"
  using create_missing_filename [of "\<lparr>rootFolder = None, filename = None, isGlobal = JBool True,
        isState = JUndefined, filePath = None\<rparr>" mem_env "start empty_fs"]
  by (simp add: SfdxError_def start_def)

text \<open>
  Where the file name is present and either the root folder is given or \<^verbatim>\<open>isGlobal\<close> is
  a boolean, \<open>create\<close> is the creation of the specification: it stores the join of the
  base, the sub-directory (or the empty string) and the file name, with the state
  folder joined to the base exactly when \<^verbatim>\<open>isGlobal\<close> or \<^verbatim>\<open>isState\<close> is the boolean
  \<^verbatim>\<open>true\<close>, and fails only when the project root cannot be found.
\<close>

lemma create_path_layout:
  assumes "str_truthy (filename opts)"
    and "str_truthy (rootFolder opts) \<or> isBoolean (isGlobal opts)"
  shows "create E opts s = spec_create E opts s"
proof -
  from assms(1) obtain fname where fn: "filename opts = Some fname" "fname \<noteq> []"
    by (cases "filename opts") auto
  define resolved where "resolved =
    (case rootFolder opts of
       None \<Rightarrow> resolveRootFolder E (isGlobal opts) s
     | Some r \<Rightarrow> if r = [] then resolveRootFolder E (isGlobal opts) s else (Inr r, s))"
  have code: "create E opts s =
      (case resolved of
         (Inl err, s') \<Rightarrow> (Inl err, s')
       | (Inr base, s') \<Rightarrow>
           (Inr \<lparr>options = opts, path = spec_path E opts base, contents = JUndefined\<rparr>, s'))"
    using fn
    by (simp add: create_def resolved_def spec_path_def Let_def js_or_truthy js_and_isBoolean
          split: option.splits prod.splits sum.splits)
  have root: "resolveRootFolder E (isGlobal opts) s =
      (if isGlobal opts = JBool True then (Inr (osHomedir E), s)
       else invoke CallProjectDir (ProjectDir_getPath E) s)"
    if "isBoolean (isGlobal opts)"
    using that by (cases "isGlobal opts") (auto simp add: resolveRootFolder_def)
  have "resolved = spec_base E opts s"
  proof (cases "str_truthy (rootFolder opts)")
    case True
    then show ?thesis
      by (cases "rootFolder opts") (simp_all add: resolved_def spec_base_def)
  next
    case False
    with assms(2) have "isBoolean (isGlobal opts)"
      by simp
    from root [OF this] show ?thesis
      by (cases "rootFolder opts") (simp_all add: resolved_def spec_base_def)
  qed
  with code show ?thesis
    by (simp add: spec_create_def)
qed

lemma posix_join_example:
  "posix_join [''/work/project'', [], ''config.json''] = ''/work/project/config.json''"
  by code_simp

text \<open>
  C2. The path layout fails where the root folder is absent and \<^verbatim>\<open>isGlobal\<close> is not a
  boolean. With the file name alone, in a file system that has a project at
  \<^verbatim>\<open>/work/project\<close>, the layout of the specification asks for the project root and
  gives the path \<^verbatim>\<open>/work/project/config.json\<close>; \<open>create\<close> hands the option itself to
  \<open>resolveRootFolder\<close> and fails with the error named \<^verbatim>\<open>InvalidTypeForIsGlobal\<close>,
  without asking for the project root.
\<close>

theorem create_path_undefined_isGlobal:
  "create mem_env local_options (start project_fs) =
     (Inl (SfdxError ''isGlobal must be a boolean'' ''InvalidTypeForIsGlobal''),
      start project_fs) \<and>
   spec_create mem_env local_options (start project_fs) =
     (Inr \<lparr>options = local_options, path = ''/work/project/config.json'',
           contents = JUndefined\<rparr>,
      \<lparr>fs = project_fs, calls = [CallProjectDir]\<rparr>)"
  by (simp add: create_def resolveRootFolder_def spec_create_def spec_base_def spec_path_def
        effective_def invoke_def mem_env_def mem_getPath_def local_options_def
        project_fs_def start_def posix_join_example)

text \<open>
  C3. A non-boolean \<^verbatim>\<open>isGlobal\<close> does not count as false when the root is resolved.
  \<open>create\<close> computes the flag that way for the state folder (\<^verbatim>\<open>_isGlobal\<close>, which is
  \<^verbatim>\<open>false\<close> for a non-boolean), but hands the option itself to \<open>resolveRootFolder\<close>,
  which refuses what is not a boolean: with the file name alone, \<open>create\<close> fails with
  the error named \<^verbatim>\<open>InvalidTypeForIsGlobal\<close>, in every environment, and the project
  root is never asked for.
\<close>

theorem create_undefined_isGlobal:
  "create E \<lparr>rootFolder = None, filename = Some ''config.json'', isGlobal = JUndefined,
              isState = JUndefined, filePath = None\<rparr> s =
     (Inl (SfdxError ''isGlobal must be a boolean'' ''InvalidTypeForIsGlobal''), s)"
  by (simp add: create_def resolveRootFolder_def)

text \<open>
  C10. \<open>getIsGlobal\<close> returns the option as it was given. For an instance created from
  options whose \<^verbatim>\<open>isGlobal\<close> is \<^verbatim>\<open>undefined\<close> it returns \<^verbatim>\<open>undefined\<close>, which is not a
  boolean, although creation went as it goes for \<^verbatim>\<open>isGlobal = false\<close>: the same
  options with \<^verbatim>\<open>false\<close> give an instance with the same path.
\<close>

theorem getIsGlobal_unmodified:
  assumes "create E opts s = (Inr c, s')"
  shows "getIsGlobal c = isGlobal opts \<and>
         (isGlobal opts = JUndefined \<longrightarrow>
            getIsGlobal c = JUndefined \<and> \<not> isBoolean (getIsGlobal c) \<and>
            fst (create E (opts\<lparr>isGlobal := JBool False\<rparr>) s) =
              Inr (c\<lparr>options := opts\<lparr>isGlobal := JBool False\<rparr>\<rparr>))"
  using assms
  by (auto simp add: create_def getIsGlobal_def Let_def resolveRootFolder_def js_and_def
        js_or_def split: option.splits if_splits prod.splits sum.splits)

theorem getIsGlobal_unmodified_witness:
  "create mem_env (global_options\<lparr>rootFolder := Some ''/tmp/root'', isGlobal := JUndefined\<rparr>)
       (start empty_fs) =
     (Inr \<lparr>options = global_options\<lparr>rootFolder := Some ''/tmp/root'', isGlobal := JUndefined\<rparr>,
           path = ''/tmp/root/config.json'', contents = JUndefined\<rparr>, start empty_fs) \<and>
   getIsGlobal \<lparr>options = global_options\<lparr>rootFolder := Some ''/tmp/root'', isGlobal := JUndefined\<rparr>,
           path = ''/tmp/root/config.json'', contents = JUndefined\<rparr> = JUndefined"
proof -
  have p: "posix_join [''/tmp/root'', [], ''config.json''] = ''/tmp/root/config.json''"
    by code_simp
  have c: "create mem_env
       (global_options\<lparr>rootFolder := Some ''/tmp/root'', isGlobal := JUndefined\<rparr>)
       (start empty_fs) =
     (Inr \<lparr>options = global_options\<lparr>rootFolder := Some ''/tmp/root'', isGlobal := JUndefined\<rparr>,
           path = ''/tmp/root/config.json'', contents = JUndefined\<rparr>, start empty_fs)"
    by (simp add: create_def global_options_def mem_env_def js_and_def js_or_def p)
  from getIsGlobal_unmodified [OF c] c show ?thesis
    by (simp add: global_options_def)
qed

subsection \<open>read\<close>

text \<open>
  C4. When \<^verbatim>\<open>SfdxUtil.readJSON\<close> rejects with an error \<open>err\<close>: if the error is the
  not-found one (\<^verbatim>\<open>err.code === 'ENOENT'\<close>) and \<open>throwOnNotFound\<close> is false, \<open>read\<close> sets
  the contents to the empty object and returns it; in every other case (not found
  with the flag true, or any other error with either flag) the same error \<open>err\<close> is
  rethrown and the instance is unchanged. \<open>read\<close> defaults the flag to false,
  \<open>readJSON\<close> to true, and is \<open>read\<close> otherwise.
\<close>

theorem read_not_found:
  assumes "SfdxUtil_readJSON E (getPath c) (fs s) = (Inl err, w)"
  shows "read E t (c, s) =
           (if err_code err = Some ''ENOENT'' \<and> \<not> (case t of None \<Rightarrow> False | Some b \<Rightarrow> b)
            then (Inr (JObj []), c\<lparr>contents := JObj []\<rparr>,
                  \<lparr>fs = w, calls = calls s @ [CallReadJSON (getPath c)]\<rparr>)
            else (Inl err, c, \<lparr>fs = w, calls = calls s @ [CallReadJSON (getPath c)]\<rparr>))
         \<and> readJSON E t (c, s) =
           (if err_code err = Some ''ENOENT'' \<and> \<not> (case t of None \<Rightarrow> True | Some b \<Rightarrow> b)
            then (Inr (JObj []), c\<lparr>contents := JObj []\<rparr>,
                  \<lparr>fs = w, calls = calls s @ [CallReadJSON (getPath c)]\<rparr>)
            else (Inl err, c, \<lparr>fs = w, calls = calls s @ [CallReadJSON (getPath c)]\<rparr>))"
  using assms by (simp add: invoke_def setContents_def Let_def split: option.splits)

theorem read_not_found_witness:
  "SfdxUtil_readJSON mem_env (getPath global_config) (fs (start empty_fs)) =
     (Inl (sys_error ''ENOENT''), empty_fs) \<and>
   fst (read mem_env None (global_config, start empty_fs)) = Inr (JObj []) \<and>
   fst (read mem_env (Some True) (global_config, start empty_fs)) = Inl (sys_error ''ENOENT'') \<and>
   fst (readJSON mem_env None (global_config, start empty_fs)) = Inl (sys_error ''ENOENT'') \<and>
   SfdxUtil_readJSON mem_env (getPath global_config) (fs (start malformed_fs)) =
     (Inl (JsError ''SyntaxError'' ''Unexpected token in JSON'' None), malformed_fs) \<and>
   fst (read mem_env None (global_config, start malformed_fs)) =
     Inl (JsError ''SyntaxError'' ''Unexpected token in JSON'' None)"
proof -
  have a: "SfdxUtil_readJSON mem_env (getPath global_config) (fs (start empty_fs)) =
      (Inl (sys_error ''ENOENT''), empty_fs)"
    by (simp add: mem_env_def mem_readJSON_def empty_fs_def start_def getPath_def
          global_config_def)
  have "JSON_parse ''{oops'' = None"
    by code_simp
  then have b: "SfdxUtil_readJSON mem_env (getPath global_config) (fs (start malformed_fs)) =
      (Inl (JsError ''SyntaxError'' ''Unexpected token in JSON'' None), malformed_fs)"
    by (simp add: mem_env_def mem_readJSON_def malformed_fs_def start_def getPath_def
          global_config_def)
  from read_not_found [OF a, of None] read_not_found [OF a, of "Some True"]
    read_not_found [OF b, of None] a b
  show ?thesis
    by (simp add: sys_error_def)
qed

subsection \<open>write\<close>


text \<open>
  On the in-memory file system: a fresh global config given an object with one
  property leaves the parent directories in place and a file whose text is the
  object laid out on three lines, the property indented by four blanks.
\<close>

lemma write_config_example:
  "fst (write_config mem_env (JObj [(''a'', JNum 1)]) (global_config, start empty_fs)) =
     Inr (JObj [(''a'', JNum 1)]) \<and>
   map_option f_data
     (files (fs (snd (snd (write_config mem_env (JObj [(''a'', JNum 1)])
                             (global_config, start empty_fs)))))
        ''/home/user/.sfdx/config.json'') =
     Some ([CHR ''{'', CHR 0x0A] @ ''    '' @ [CHR 0x22] @ ''a'' @ [CHR 0x22] @ '': 1''
           @ [CHR 0x0A, CHR ''}'']) \<and>
   dirs (fs (snd (snd (write_config mem_env (JObj [(''a'', JNum 1)])
                         (global_config, start empty_fs))))) = home_dirs"
  by code_simp

subsection \<open>unlink\<close>

text \<open>
  C6, amended. \<open>unlink\<close> checks read access to the path once. When the check resolves
  (\<open>exists\<close> is true) it calls \<^verbatim>\<open>SfdxUtil.unlink\<close> on the path exactly once and its
  outcome is that call's outcome. When the check is rejected, for whatever reason
  (the file is absent, or it is there and cannot be read), it makes no deletion
  attempt and fails with the error named \<^verbatim>\<open>TargetFileNotFound\<close>, whose message ends
  with the path.
\<close>

theorem unlink_outcome:
  "unlink E (c, s) =
     (case SfdxUtil_access E (getPath c) R_OK (fs s) of
        (Inr ok, w1) \<Rightarrow>
          (case SfdxUtil_unlink E (getPath c) w1 of
             (r, w2) \<Rightarrow>
               (r, c,
                \<lparr>fs = w2,
                 calls = calls s @ [CallAccess (getPath c) R_OK, CallUnlink (getPath c)]\<rparr>))
      | (Inl err, w1) \<Rightarrow>
          (Inl (SfdxError (''Target file doesn't exist. path: '' @ getPath c)
                  ''TargetFileNotFound''),
           c, \<lparr>fs = w1, calls = calls s @ [CallAccess (getPath c) R_OK]\<rparr>))"
  by (simp add: invoke_def split: prod.splits sum.splits)

text \<open>
  C6 as stated fails: the file system \<open>unreadable_fs\<close> holds a file at the path, which
  the user may write and not read. The target is there before and after the call, and
  \<open>unlink\<close> fails with \<^verbatim>\<open>TargetFileNotFound\<close>.
\<close>

theorem unlink_present_counterexample:
  "files unreadable_fs (getPath global_config) \<noteq> None \<and>
   fst (unlink mem_env (global_config, start unreadable_fs)) =
     Inl (SfdxError ''Target file doesn't exist. path: /home/user/.sfdx/config.json''
            ''TargetFileNotFound'') \<and>
   files (fs (snd (snd (unlink mem_env (global_config, start unreadable_fs)))))
     (getPath global_config) \<noteq> None"
  by code_simp

subsection \<open>The path of an instance\<close>

text \<open>
  C9. Whatever sequence of \<open>access\<close>, \<open>read\<close>, \<open>readJSON\<close>, \<open>write\<close>, \<open>exists\<close>, \<open>stat\<close>,
  \<open>unlink\<close> and \<open>setContents\<close> is applied to an instance, in whatever environment and
  with whatever outcomes, \<open>getPath\<close> returns afterwards what it returned before, and
  the options are the same: the path that \<open>create\<close> stored is never assigned again.
\<close>

theorem lifetime_frame:
  "getPath (fst (lifetime E ops (c, s))) = getPath c \<and>
   options (fst (lifetime E ops (c, s))) = options c"
proof -
  have "path (fst (lifetime E ops cs)) = path (fst cs) \<and>
        options (fst (lifetime E ops cs)) = options (fst cs)" for cs
    by (induction ops arbitrary: cs) (simp_all add: perform_frame)
  from this [of "(c, s)"] show ?thesis
    by (simp add: getPath_def)
qed

subsection \<open>Writing, then reading\<close>




end
